theory Spec2Isabelle
  imports Complex_Main
begin

section \<open>JavaScript values\<close>

text \<open>
  A JavaScript string is a sequence of UTF-16 code units; a code unit is modelled by its
  number, so that the dash U+2014 of the placeholder title is the single unit 8212 and
  \<open>slice\<close> counts what the source counts. \<open>js\<close> embeds an ASCII literal.
\<close>

type_synonym jsstring = "nat list"

definition js :: "string \<Rightarrow> jsstring" where
  "js s = map of_char s"

text \<open>
  Decimal rendering of an integer, as a template literal or \<open>toString()\<close> gives it:
  the plain digits, which is what JavaScript prints for an integer of magnitude up to
  \<open>2^53\<close> (beyond that it prints the shortest digits that identify the double, and from
  \<open>10^21\<close> on an exponent).
\<close>

fun js_of_nat :: "nat \<Rightarrow> jsstring" where
  "js_of_nat n = (if n < 10 then [48 + n] else js_of_nat (n div 10) @ [48 + n mod 10])"

declare js_of_nat.simps [simp del]

definition js_of_int :: "int \<Rightarrow> jsstring" where
  "js_of_int i = (if i < 0 then 45 # js_of_nat (nat (- i)) else js_of_nat (nat i))"

text \<open>
  \<open>a || b\<close> on an optional string: the empty string and a missing value are both falsy.
  On an optional number, zero and a missing value are falsy.
\<close>

definition or_str :: "jsstring option \<Rightarrow> jsstring \<Rightarrow> jsstring" where
  "or_str a b = (case a of None \<Rightarrow> b | Some v \<Rightarrow> if v = [] then b else v)"

definition or_num :: "real option \<Rightarrow> real \<Rightarrow> real" where
  "or_num a b = (case a of None \<Rightarrow> b | Some v \<Rightarrow> if v = 0 then b else v)"

definition truthy_str :: "jsstring option \<Rightarrow> bool" where
  "truthy_str a = (case a of None \<Rightarrow> False | Some v \<Rightarrow> v \<noteq> [])"

text \<open>\<open>Math.round\<close>: the nearest integer, ties towards plus infinity.\<close>

definition math_round :: "real \<Rightarrow> int" where
  "math_round x = \<lfloor>x + 1 / 2\<rfloor>"

subsection \<open>Arithmetic on doubles\<close>

text \<open>
  A number is an IEEE 754 double; a finite double is modelled by the real it denotes.
  Comparisons and \<open>Math.round\<close> are exact on doubles. An arithmetic operation is the
  exact operation followed by rounding to the nearest double, ties to the even
  significand: \<open>binade x\<close> is the exponent \<open>k\<close> with \<open>2^k \<le> |x| < 2^(k+1)\<close>, kept
  within the exponents \<open>-1022 .. 1023\<close> of a double (below them the subnormal numbers
  share the spacing of the lowest binade), and the doubles of a binade are the multiples
  of \<open>2^(k-52)\<close>. A result beyond the largest double would be an infinity, which is not
  modelled.
\<close>

definition round_even :: "real \<Rightarrow> int" where
  "round_even x =
     (let f = \<lfloor>x\<rfloor>
      in if x - of_int f < 1 / 2 then f
         else if 1 / 2 < x - of_int f then f + 1
         else if even f then f else f + 1)"

function binade_up :: "real \<Rightarrow> int \<Rightarrow> int" where
  "binade_up y k = (if y < 2 \<or> 1023 \<le> k then k else binade_up (y / 2) (k + 1))"
  by pat_completeness auto
termination
  by (relation "measure (\<lambda>(y, k). nat (1023 - k))") auto

function binade_down :: "real \<Rightarrow> int \<Rightarrow> int" where
  "binade_down y k = (if 1 \<le> y \<or> k \<le> - 1022 then k else binade_down (2 * y) (k - 1))"
  by pat_completeness auto
termination
  by (relation "measure (\<lambda>(y, k). nat (k + 1022))") auto

declare binade_up.simps [simp del] binade_down.simps [simp del]

definition binade :: "real \<Rightarrow> int" where
  "binade x = (if 1 \<le> \<bar>x\<bar> then binade_up \<bar>x\<bar> 0 else binade_down \<bar>x\<bar> 0)"

definition round_double :: "real \<Rightarrow> real" where
  "round_double x =
     (let u = 2 powi (binade x - 52) in of_int (round_even (x / u)) * u)"

text \<open>The operator \<open>-\<close> on two numbers.\<close>

definition double_sub :: "real \<Rightarrow> real \<Rightarrow> real" where
  "double_sub a b = round_double (a - b)"

text \<open>
  \<open>String.prototype.trim\<close> removes white space and line terminators from both ends.
\<close>

definition is_js_space :: "nat \<Rightarrow> bool" where
  "is_js_space c =
     (c \<in> set [9, 10, 11, 12, 13, 32, 160, 5760, 8232, 8233, 8239, 8287, 12288, 65279]
      \<or> (8192 \<le> c \<and> c \<le> 8202))"

definition trim :: "jsstring \<Rightarrow> jsstring" where
  "trim s = rev (dropWhile is_js_space (rev (dropWhile is_js_space s)))"

subsection \<open>The regular expressions of the title functions\<close>

definition is_digit :: "nat \<Rightarrow> bool" where
  "is_digit c = (48 \<le> c \<and> c \<le> 57)"

definition is_word :: "nat \<Rightarrow> bool" where
  "is_word c = (is_digit c \<or> (65 \<le> c \<and> c \<le> 90) \<or> (97 \<le> c \<and> c \<le> 122) \<or> c = 95)"

text \<open>
  A pattern is a function that, given the rest of the subject from some position, returns
  the length of its match there. \<open>replace_anchored\<close> is \<open>replace\<close> for a pattern that
  starts with \<open>^\<close>; \<open>replace_first\<close> replaces the leftmost match of an unanchored
  pattern without the \<open>g\<close> flag; \<open>replace_all\<close> is a one-character pattern with it.
\<close>

definition replace_anchored :: "(jsstring \<Rightarrow> nat option) \<Rightarrow> jsstring \<Rightarrow> jsstring \<Rightarrow> jsstring" where
  "replace_anchored m r s = (case m s of Some n \<Rightarrow> r @ drop n s | None \<Rightarrow> s)"

fun replace_first :: "(jsstring \<Rightarrow> nat option) \<Rightarrow> jsstring \<Rightarrow> jsstring \<Rightarrow> jsstring" where
  "replace_first m r [] = (case m [] of Some n \<Rightarrow> r | None \<Rightarrow> [])"
| "replace_first m r (c # cs) =
     (case m (c # cs) of Some n \<Rightarrow> r @ drop n (c # cs) | None \<Rightarrow> c # replace_first m r cs)"

definition replace_all :: "(nat \<Rightarrow> bool) \<Rightarrow> jsstring \<Rightarrow> jsstring \<Rightarrow> jsstring" where
  "replace_all p r s = concat (map (\<lambda>c. if p c then r else [c]) s)"

text \<open>\<^verbatim>\<open>/^\d{8}_\d{6}_/\<close>\<close>

definition re_timestamp :: "jsstring \<Rightarrow> nat option" where
  "re_timestamp s =
     (if 16 \<le> length s \<and> list_all is_digit (take 8 s) \<and> s ! 8 = 95
         \<and> list_all is_digit (take 6 (drop 9 s)) \<and> s ! 15 = 95
      then Some 16 else None)"

text \<open>\<^verbatim>\<open>/\.\w+$/\<close>, tried at one position: a dot, then word characters up to the end.\<close>

definition re_ext_word :: "jsstring \<Rightarrow> nat option" where
  "re_ext_word s =
     (case s of [] \<Rightarrow> None
      | c # rest \<Rightarrow>
          if c = 46 \<and> rest \<noteq> [] \<and> list_all is_word rest then Some (length s) else None)"

text \<open>\<^verbatim>\<open>/\.[^.]+$/\<close>, tried at one position: a dot, then anything but a dot up to the end.\<close>

definition re_ext_nodot :: "jsstring \<Rightarrow> nat option" where
  "re_ext_nodot s =
     (case s of [] \<Rightarrow> None
      | c # rest \<Rightarrow>
          if c = 46 \<and> rest \<noteq> [] \<and> list_all (\<lambda>d. d \<noteq> 46) rest then Some (length s)
          else None)"

text \<open>\<^verbatim>\<open>/^\d+(\.\d+)?$/.test\<close>\<close>

definition re_numeric :: "jsstring \<Rightarrow> bool" where
  "re_numeric s =
     (let ds = takeWhile is_digit s; rest = dropWhile is_digit s
      in ds \<noteq> [] \<and>
         (case rest of [] \<Rightarrow> True
          | c # fr \<Rightarrow> c = 46 \<and> fr \<noteq> [] \<and> list_all is_digit fr))"

section \<open>Title derivation\<close>

text \<open>\<open>formatCallTitle\<close> of the home page (app/page.tsx).\<close>

definition formatCallTitle :: "jsstring \<Rightarrow> jsstring" where
  "formatCallTitle filename =
     (let name = replace_all (\<lambda>c. c = 95) (js '' '')
                   (replace_first re_ext_word []
                      (replace_anchored re_timestamp [] filename))
      in if re_numeric name
         then js ''Call Recording '' @ [8212] @ js '' '' @ take 8 name @ js ''...''
         else if name = [] then js ''Call Recording'' else name)"

text \<open>\<open>formatCallTitle\<close> of the ReportCard component, a second copy of the same text.\<close>

definition formatCallTitle_card :: "jsstring \<Rightarrow> jsstring" where
  "formatCallTitle_card filename =
     (let name = replace_all (\<lambda>c. c = 95) (js '' '')
                   (replace_first re_ext_word []
                      (replace_anchored re_timestamp [] filename))
      in if re_numeric name
         then js ''Call Recording '' @ [8212] @ js '' '' @ take 8 name @ js ''...''
         else if name = [] then js ''Call Recording'' else name)"

text \<open>\<open>formatCallTitle\<close> of the report detail page.\<close>

definition formatCallTitle_detail :: "jsstring \<Rightarrow> jsstring" where
  "formatCallTitle_detail filename =
     replace_all (\<lambda>c. c = 95 \<or> c = 45) (js '' '')
       (replace_first re_ext_nodot []
          (replace_anchored re_timestamp [] filename))"

section \<open>Data received from the API\<close>

text \<open>
  The declarations of \<open>@/lib/api\<close> are read off their uses: every field a page guards
  with \<open>||\<close>, \<open>?.\<close> or \<open>??\<close> is optional. A number field holds the real that a
  finite double denotes (no NaN, no infinities).
\<close>

record Report =
  report_id :: "jsstring option"
  filename :: "jsstring option"
  timestamp :: "jsstring option"
  risk_score :: "real option"
  risk_level :: "jsstring option"
  violations :: "jsstring list option"

record AnalyticsSummary =
  report_count :: nat
  total_violations :: "nat option"
  avg_compliance_score :: real
  avg_risk_score :: real

record TrendPoint =
  compliance_score :: real
  trend_risk_score :: real
  violation_count :: nat

record AnalyticsTrends =
  data_points :: "TrendPoint list"

text \<open>
  A settled promise: \<open>Inl\<close> the rejection reason, \<open>Inr\<close> the value. \<open>Promise.all\<close> of two
  promises fulfils with both values when both fulfil and rejects otherwise. (Which reason
  it carries when both reject depends on which rejected first; no page reads the reason.)
\<close>

type_synonym 'a settled = "jsstring + 'a"

definition promise_all2 :: "'a settled \<Rightarrow> 'b settled \<Rightarrow> ('a \<times> 'b) settled" where
  "promise_all2 a b =
     (case a of Inl e \<Rightarrow> Inl e
      | Inr x \<Rightarrow> (case b of Inl e \<Rightarrow> Inl e | Inr y \<Rightarrow> Inr (x, y)))"

section \<open>What a page renders\<close>

text \<open>
  The markup is reduced to the blocks whose presence or text depends on the state. Dates
  are left out (they go through the locale), and a level is kept as computed, before
  \<open>toUpperCase\<close>.
\<close>

record card_view =
  card_href :: jsstring
  card_level :: jsstring
  card_badgeColor :: jsstring
  card_title :: jsstring
  card_violationsCount :: nat
  card_riskScore :: real

datatype history_view =
    HistoryLoading
  | HistoryEmpty jsstring
  | HistoryList "jsstring list"

datatype view =
    LoadingState jsstring
  | ErrorState jsstring
  | EmptyState jsstring
  | StatCard jsstring jsstring jsstring
  | ReportCards "card_view list"
  | RiskCounts nat nat nat nat
  | AnalyticsContent AnalyticsSummary "AnalyticsTrends option"
  | ExportMessage jsstring
  | ReportHeader jsstring jsstring real
  | CallerHistory "history_view list"

fun is_error_state :: "view \<Rightarrow> bool" where
  "is_error_state (ErrorState m) = True"
| "is_error_state v = False"

definition shows_error :: "view list \<Rightarrow> bool" where
  "shows_error vs = list_ex is_error_state vs"

section \<open>Home page\<close>

record home_state =
  home_reports :: "Report list"
  home_summary :: "AnalyticsSummary option"
  home_loading :: bool
  home_isAnalyzing :: bool

definition home_init :: home_state where
  "home_init =
     \<lparr>home_reports = [], home_summary = None, home_loading = True, home_isAnalyzing = False\<rparr>"

text \<open>
  \<open>loadData\<close> of the mount effect, given how the two fetches settle: the setters run after
  \<open>Promise.all\<close> fulfilled, the \<open>catch\<close> only logs, the \<open>finally\<close> stops loading.
\<close>

definition home_loadData ::
  "Report list settled \<Rightarrow> AnalyticsSummary option settled \<Rightarrow> home_state \<Rightarrow> home_state" where
  "home_loadData reportsFetch summaryFetch s =
     (case promise_all2 reportsFetch summaryFetch of
        Inr (reportsData, summaryData) \<Rightarrow>
          s\<lparr>home_reports := reportsData, home_summary := summaryData, home_loading := False\<rparr>
      | Inl err \<Rightarrow> s\<lparr>home_loading := False\<rparr>)"

definition handleAudioAnalyzed ::
  "Report list settled \<Rightarrow> AnalyticsSummary option settled \<Rightarrow> home_state \<Rightarrow> home_state" where
  "handleAudioAnalyzed reportsFetch summaryFetch s =
     (case promise_all2 reportsFetch summaryFetch of
        Inr (reportsData, summaryData) \<Rightarrow>
          s\<lparr>home_isAnalyzing := False, home_reports := reportsData, home_summary := summaryData\<rparr>
      | Inl err \<Rightarrow> s\<lparr>home_isAnalyzing := False\<rparr>)"

definition totalViolations :: "AnalyticsSummary option \<Rightarrow> nat" where
  "totalViolations summary =
     (case summary of None \<Rightarrow> 0
      | Some sm \<Rightarrow> (case total_violations sm of None \<Rightarrow> 0 | Some n \<Rightarrow> n))"

definition complianceRate :: "AnalyticsSummary option \<Rightarrow> int" where
  "complianceRate summary =
     (case summary of None \<Rightarrow> 0 | Some sm \<Rightarrow> math_round (avg_compliance_score sm))"

definition avgRiskScore :: "AnalyticsSummary option \<Rightarrow> int" where
  "avgRiskScore summary =
     (case summary of None \<Rightarrow> 0
      | Some sm \<Rightarrow> math_round (double_sub 100 (avg_risk_score sm)))"

definition riskLabel :: "int \<Rightarrow> jsstring" where
  "riskLabel a =
     (if a \<le> 35 then js ''Low risk'' else if a \<le> 65 then js ''Medium risk''
      else js ''High risk'')"

text \<open>One card of the recent reports, the body of the \<open>map\<close> callback.\<close>

definition home_card :: "nat \<Rightarrow> Report \<Rightarrow> card_view" where
  "home_card idx report =
     (let riskScore = or_num (risk_score report) 0;
          level = or_str (risk_level report)
                    (if riskScore \<ge> 65 then js ''high''
                     else if riskScore \<ge> 35 then js ''medium'' else js ''low'');
          fileName = or_str (filename report) (js ''Unknown Call'');
          reportId = or_str (report_id report) (js ''report-'' @ js_of_nat idx);
          violationsCount = (case violations report of None \<Rightarrow> 0 | Some vs \<Rightarrow> length vs);
          badgeColor =
            (if level = js ''high'' then js ''bg-rose-500/20 text-rose-400''
             else if level = js ''medium'' then js ''bg-amber-500/20 text-amber-400''
             else js ''bg-emerald-500/20 text-emerald-400'')
      in \<lparr>card_href = js ''/reports/'' @ reportId, card_level = level,
          card_badgeColor = badgeColor, card_title = formatCallTitle fileName,
          card_violationsCount = violationsCount, card_riskScore = riskScore\<rparr>)"

definition home_render :: "home_state \<Rightarrow> view list" where
  "home_render s =
     (let reports = home_reports s; n = length reports; summary = home_summary s
      in (if home_isAnalyzing s then [LoadingState (js ''Analyzing your call...'')] else [])
         @ [StatCard (js ''TOTAL REPORTS'') (js_of_nat n)
              (if n > 0 then js_of_nat n @ js '' analyzed'' else js ''No reports yet''),
            StatCard (js ''VIOLATIONS FOUND'') (js_of_nat (totalViolations summary))
              (js ''Across all reports''),
            StatCard (js ''COMPLIANCE RATE'') (js_of_int (complianceRate summary) @ js ''%'')
              (if n > 0 then js ''Average score'' else js ''No data yet''),
            StatCard (js ''AVG. RISK SCORE'') (js_of_int (avgRiskScore summary) @ js ''%'')
              (riskLabel (avgRiskScore summary))]
         @ (if \<not> home_loading s \<and> n > 0
            then [ReportCards (map (\<lambda>(idx, r). home_card idx r) (enumerate 0 (take 4 reports)))]
            else [])
         @ (if \<not> home_loading s \<and> n = 0
            then [EmptyState (js ''No reports yet. Upload an audio file above to get started.'')]
            else []))"

section \<open>Reports list page and the ReportCard component\<close>

definition reportCard :: "Report \<Rightarrow> card_view" where
  "reportCard report =
     (let riskScore = or_num (risk_score report) 0;
          level = or_str (risk_level report)
                    (if riskScore \<ge> 65 then js ''high''
                     else if riskScore \<ge> 35 then js ''medium'' else js ''low'');
          reportId = or_str (report_id report) (js ''unknown'');
          violationsCount = (case violations report of None \<Rightarrow> 0 | Some vs \<Rightarrow> length vs);
          badgeColor =
            (if level = js ''high'' then js ''bg-rose-500/20 text-rose-400''
             else if level = js ''medium'' then js ''bg-amber-500/20 text-amber-400''
             else js ''bg-emerald-500/20 text-emerald-400'')
      in \<lparr>card_href = js ''/reports/'' @ reportId, card_level = level,
          card_badgeColor = badgeColor,
          card_title = formatCallTitle_card (or_str (filename report) (js ''Unknown Call'')),
          card_violationsCount = violationsCount, card_riskScore = riskScore\<rparr>)"

record reports_state =
  rl_reports :: "Report list"
  rl_loading :: bool
  rl_error :: "jsstring option"

definition reports_init :: reports_state where
  "reports_init = \<lparr>rl_reports = [], rl_loading = True, rl_error = None\<rparr>"

definition loadReports :: "Report list settled \<Rightarrow> reports_state \<Rightarrow> reports_state" where
  "loadReports reportsFetch s =
     (case reportsFetch of
        Inr data \<Rightarrow> s\<lparr>rl_reports := data, rl_loading := False\<rparr>
      | Inl err \<Rightarrow> s\<lparr>rl_error := Some (js ''Failed to load reports''), rl_loading := False\<rparr>)"

text \<open>
  The order of the grid (newest first, by parsed timestamp) is a parameter \<open>by_time\<close>.
\<close>

definition reports_render :: "(Report list \<Rightarrow> Report list) \<Rightarrow> reports_state \<Rightarrow> view list" where
  "reports_render by_time s =
     (let reports = rl_reports s; n = length reports
      in (if n > 0
          then [RiskCounts n
                  (length (filter (\<lambda>r. risk_level r = Some (js ''low'')) reports))
                  (length (filter (\<lambda>r. risk_level r = Some (js ''medium'')) reports))
                  (length (filter (\<lambda>r. risk_level r = Some (js ''high'')) reports))]
          else [])
         @ (if rl_loading s then [LoadingState (js ''Loading reports...'')] else [])
         @ (case rl_error s of None \<Rightarrow> []
            | Some e \<Rightarrow> if e \<noteq> [] then [ErrorState e] else [])
         @ (if \<not> rl_loading s \<and> n = 0
            then [EmptyState (js ''No reports yet. Upload an audio file to get started.'')]
            else [])
         @ (if \<not> rl_loading s \<and> n > 0 then [ReportCards (map reportCard (by_time reports))]
            else []))"

section \<open>Analytics page\<close>

record analytics_state =
  an_summary :: "AnalyticsSummary option"
  an_trends :: "AnalyticsTrends option"
  an_loading :: bool
  an_error :: "jsstring option"
  an_exporting :: bool
  an_exportMsg :: "jsstring option"

definition analytics_init :: analytics_state where
  "analytics_init =
     \<lparr>an_summary = None, an_trends = None, an_loading = True, an_error = None,
      an_exporting = False, an_exportMsg = None\<rparr>"

definition analytics_loadData ::
  "AnalyticsSummary option settled \<Rightarrow> AnalyticsTrends option settled \<Rightarrow>
   analytics_state \<Rightarrow> analytics_state" where
  "analytics_loadData summaryFetch trendsFetch s =
     (case promise_all2 summaryFetch trendsFetch of
        Inr (summaryData, trendsData) \<Rightarrow>
          s\<lparr>an_summary := summaryData, an_trends := trendsData, an_loading := False\<rparr>
      | Inl err \<Rightarrow>
          s\<lparr>an_error := Some (js ''Failed to load analytics data''), an_loading := False\<rparr>)"

definition analytics_render :: "analytics_state \<Rightarrow> view list" where
  "analytics_render s =
     (if an_loading s then [LoadingState (js ''Loading analytics...'')]
      else if truthy_str (an_error s) \<or> an_summary s = None
      then [ErrorState (or_str (an_error s) (js ''No data available''))]
      else (case an_exportMsg s of None \<Rightarrow> []
            | Some m \<Rightarrow> if m \<noteq> [] then [ExportMessage m] else [])
           @ (case an_summary s of None \<Rightarrow> []
              | Some sm \<Rightarrow> [AnalyticsContent sm (an_trends s)]))"

subsection \<open>CSV export and its timers\<close>

text \<open>
  What \<open>exportCSV\<close> resolves with. The page state is paired with the due times of the
  pending \<open>setTimeout\<close> callbacks, oldest first; every callback is
  \<open>() => setExportMsg(null)\<close>, and none is ever cancelled.
\<close>

record csv_result =
  csv_success :: bool
  csv_error :: "jsstring option"

record analytics_env =
  env_page :: analytics_state
  env_timers :: "nat list"

text \<open>The handler up to its \<open>await\<close>.\<close>

definition handleExportCSV_begin :: "analytics_env \<Rightarrow> analytics_env" where
  "handleExportCSV_begin env =
     env\<lparr>env_page := (env_page env)\<lparr>an_exporting := True, an_exportMsg := None\<rparr>\<rparr>"

text \<open>A click on the download button, which is disabled while \<open>exporting\<close>.\<close>

definition click_export :: "analytics_env \<Rightarrow> analytics_env" where
  "click_export env =
     (if an_exporting (env_page env) then env else handleExportCSV_begin env)"

text \<open>
  The handler after its \<open>await\<close>, at time \<open>now\<close> (milliseconds). A rejection of
  \<open>exportCSV\<close> is not caught: the rest of the handler does not run.
\<close>

definition handleExportCSV_resume :: "nat \<Rightarrow> csv_result settled \<Rightarrow> analytics_env \<Rightarrow> analytics_env" where
  "handleExportCSV_resume now outcome env =
     (case outcome of
        Inl err \<Rightarrow> env
      | Inr result \<Rightarrow>
          env\<lparr>env_page := (env_page env)
                 \<lparr>an_exporting := False,
                  an_exportMsg :=
                    Some (if csv_success result then js ''CSV downloaded successfully!''
                          else or_str (csv_error result) (js ''Export failed''))\<rparr>,
              env_timers := env_timers env @ [now + 4000]\<rparr>)"

text \<open>The event loop at time \<open>now\<close>: every callback that is due runs and is removed.\<close>

definition fire_timers :: "nat \<Rightarrow> analytics_env \<Rightarrow> analytics_env" where
  "fire_timers now env =
     (if list_ex (\<lambda>due. due \<le> now) (env_timers env)
      then env\<lparr>env_page := (env_page env)\<lparr>an_exportMsg := None\<rparr>,
               env_timers := filter (\<lambda>due. now < due) (env_timers env)\<rparr>
      else env)"

datatype export_event = ClickExport | ExportSettled "csv_result settled"

fun export_step :: "analytics_env \<Rightarrow> nat \<times> export_event \<Rightarrow> analytics_env" where
  "export_step env (t, ClickExport) = click_export (fire_timers t env)"
| "export_step env (t, ExportSettled outcome) = handleExportCSV_resume t outcome (fire_timers t env)"

text \<open>The export message shown at time \<open>t\<close> after a history of timed events.\<close>

definition exportMsg_at :: "nat \<Rightarrow> (nat \<times> export_event) list \<Rightarrow> analytics_env \<Rightarrow> jsstring option" where
  "exportMsg_at t events env = an_exportMsg (env_page (fire_timers t (foldl export_step env events)))"

section \<open>Report detail page\<close>

record detail_state =
  rd_report :: "Report option"
  rd_loading :: bool
  rd_error :: "jsstring option"
  rd_showCallerHistory :: bool
  rd_callerHistory :: "Report list"
  rd_loadingHistory :: bool

definition detail_init :: detail_state where
  "detail_init =
     \<lparr>rd_report = None, rd_loading = True, rd_error = None, rd_showCallerHistory = False,
      rd_callerHistory = [], rd_loadingHistory = False\<rparr>"

text \<open>\<open>loadReport\<close>: a falsy payload is thrown as "Report not found" and caught like a rejection.\<close>

definition loadReport :: "Report option settled \<Rightarrow> detail_state \<Rightarrow> detail_state" where
  "loadReport reportFetch s =
     (case reportFetch of
        Inr (Some data) \<Rightarrow> s\<lparr>rd_report := Some data, rd_loading := False\<rparr>
      | Inr None \<Rightarrow> s\<lparr>rd_error := Some (js ''Failed to load report''), rd_loading := False\<rparr>
      | Inl err \<Rightarrow> s\<lparr>rd_error := Some (js ''Failed to load report''), rd_loading := False\<rparr>)"

text \<open>
  \<open>handleShowCallerHistory\<close> up to its \<open>await\<close>: the new state and the caller id the
  fetch is issued for, if one is issued.
\<close>

definition handleShowCallerHistory_begin :: "detail_state \<Rightarrow> detail_state \<times> jsstring option" where
  "handleShowCallerHistory_begin s =
     (case rd_report s of
        None \<Rightarrow> (s, None)
      | Some report \<Rightarrow>
          (s\<lparr>rd_showCallerHistory := True, rd_loadingHistory := True\<rparr>,
           Some (or_str (report_id report) (js ''unknown''))))"

definition handleShowCallerHistory_resume :: "Report list settled \<Rightarrow> detail_state \<Rightarrow> detail_state" where
  "handleShowCallerHistory_resume historyFetch s =
     (case historyFetch of
        Inr history \<Rightarrow> s\<lparr>rd_callerHistory := history, rd_loadingHistory := False\<rparr>
      | Inl err \<Rightarrow> s\<lparr>rd_loadingHistory := False\<rparr>)"

text \<open>A whole run of the handler, given how \<open>fetchCallerHistory\<close> settles.\<close>

definition handleShowCallerHistory :: "Report list settled \<Rightarrow> detail_state \<Rightarrow> detail_state" where
  "handleShowCallerHistory historyFetch s =
     (case handleShowCallerHistory_begin s of
        (s', None) \<Rightarrow> s'
      | (s', Some callerId) \<Rightarrow> handleShowCallerHistory_resume historyFetch s')"

definition history_panel :: "detail_state \<Rightarrow> history_view list" where
  "history_panel s =
     (if rd_loadingHistory s then [HistoryLoading] else [])
     @ (if \<not> rd_loadingHistory s \<and> length (rd_callerHistory s) = 0
        then [HistoryEmpty (js ''No previous calls found'')] else [])
     @ (if \<not> rd_loadingHistory s \<and> length (rd_callerHistory s) > 0
        then [HistoryList (map (\<lambda>call. formatCallTitle_detail
                                   (or_str (filename call) (js ''Unknown Call'')))
                             (rd_callerHistory s))]
        else [])"

definition detail_render :: "detail_state \<Rightarrow> view list" where
  "detail_render s =
     (if rd_loading s then [LoadingState (js ''Loading report...'')]
      else if truthy_str (rd_error s) \<or> rd_report s = None
      then [ErrorState (or_str (rd_error s) (js ''Report not found''))]
      else (case rd_report s of None \<Rightarrow> []
            | Some report \<Rightarrow>
                [ReportHeader
                   (formatCallTitle_detail (or_str (filename report) (js ''Unknown Call'')))
                   (or_str (risk_level report) (js ''low''))
                   (or_num (risk_score report) 0)]
                @ (if rd_showCallerHistory s then [CallerHistory (history_panel s)] else [])))"

section \<open>Ask-AI page\<close>

datatype role = User | Bot

record data_context =
  total_calls :: nat
  data_source :: jsstring

record ChatMessage =
  msg_id :: jsstring
  msg_role :: role
  msg_content :: jsstring
  msg_timestamp :: nat
  msg_dataContext :: "data_context option"

record QueryResponse =
  answer :: "jsstring option"
  response_data_context :: "data_context option"

record QuerySuggestion =
  category :: jsstring
  suggestion_text :: jsstring

record query_state =
  q_messages :: "ChatMessage list"
  q_input :: jsstring
  q_loading :: bool
  q_suggestions :: "QuerySuggestion list"
  q_sessionId :: jsstring

definition fallback_answer :: jsstring where
  "fallback_answer = js ''I wasn't able to process that question. Please try again.''"

definition apology :: jsstring where
  "apology = js ''Something went wrong. Please make sure the backend is running and try again.''"

text \<open>
  \<open>handleSend\<close> up to its \<open>await\<close>, at time \<open>now\<close>: the new state and the request
  (question, session id) that is sent, if one is sent. \<open>question\<close> is the optional argument.
\<close>

definition handleSend_begin ::
  "nat \<Rightarrow> jsstring option \<Rightarrow> query_state \<Rightarrow> query_state \<times> (jsstring \<times> jsstring) option" where
  "handleSend_begin now question s =
     (let q = trim (or_str question (q_input s))
      in if q = [] \<or> q_loading s then (s, None)
         else (s\<lparr>q_messages := q_messages s @
                     [\<lparr>msg_id = js ''user_'' @ js_of_nat now, msg_role = User, msg_content = q,
                       msg_timestamp = now, msg_dataContext = None\<rparr>],
                 q_input := [], q_loading := True\<rparr>,
               Some (q, q_sessionId s)))"

text \<open>
  \<open>handleSend\<close> after its \<open>await\<close>, at time \<open>now\<close>: \<open>sendQuery\<close> resolved with a response
  (possibly null) or rejected.
\<close>

definition handleSend_resume ::
  "nat \<Rightarrow> QueryResponse option settled \<Rightarrow> query_state \<Rightarrow> query_state" where
  "handleSend_resume now outcome s =
     (case outcome of
        Inr response \<Rightarrow>
          s\<lparr>q_messages := q_messages s @
                [\<lparr>msg_id = js ''bot_'' @ js_of_nat now, msg_role = Bot,
                  msg_content =
                    or_str (case response of None \<Rightarrow> None | Some r \<Rightarrow> answer r) fallback_answer,
                  msg_timestamp = now,
                  msg_dataContext =
                    (case response of None \<Rightarrow> None | Some r \<Rightarrow> response_data_context r)\<rparr>],
            q_loading := False\<rparr>
      | Inl err \<Rightarrow>
          s\<lparr>q_messages := q_messages s @
                [\<lparr>msg_id = js ''err_'' @ js_of_nat now, msg_role = Bot, msg_content = apology,
                  msg_timestamp = now, msg_dataContext = None\<rparr>],
            q_loading := False\<rparr>)"

text \<open>
  A whole run of \<open>handleSend\<close>: started at time \<open>tsend\<close> and, if a request was sent,
  resumed at time \<open>treply\<close> with how \<open>sendQuery\<close> settled. The handler reads the state
  of the latest render, and nothing else touches the state in between.
\<close>

definition handleSend ::
  "nat \<Rightarrow> nat \<Rightarrow> QueryResponse option settled \<Rightarrow> jsstring option \<Rightarrow> query_state \<Rightarrow> query_state" where
  "handleSend tsend treply outcome question s =
     (case handleSend_begin tsend question s of
        (s', None) \<Rightarrow> s'
      | (s', Some request) \<Rightarrow> handleSend_resume treply outcome s')"

section \<open>Notions the claims are stated with\<close>


text \<open>
  The bucket the specification assigns to a score: low below 35, medium from 35 and
  below 65, high from 65.
\<close>

definition spec_bucket :: "real \<Rightarrow> jsstring" where
  "spec_bucket x = (if x < 35 then js ''low'' else if x < 65 then js ''medium'' else js ''high'')"

text \<open>
  The error flag of a page: the \<open>error\<close> state variable where the component declares one.
  The home page declares \<open>reports\<close>, \<open>summary\<close>, \<open>loading\<close> and \<open>isAnalyzing\<close> only.
\<close>

datatype page =
    HomePage home_state
  | AnalyticsPage analytics_state
  | ReportsPage reports_state
  | ReportDetailPage detail_state

fun error_flag :: "page \<Rightarrow> jsstring option" where
  "error_flag (HomePage s) = None"
| "error_flag (AnalyticsPage s) = an_error s"
| "error_flag (ReportsPage s) = rl_error s"
| "error_flag (ReportDetailPage s) = rd_error s"

section \<open>Properties of the title derivation\<close>

lemma formatCallTitle_card_eq: "formatCallTitle_card f = formatCallTitle f"
  by (simp add: formatCallTitle_card_def formatCallTitle_def)

lemma digit_not_special: "is_digit c \<Longrightarrow> c \<noteq> 46 \<and> c \<noteq> 95 \<and> c \<noteq> 45"
  by (auto simp: is_digit_def)

lemma re_timestamp_digits: "list_all is_digit ds \<Longrightarrow> re_timestamp ds = None"
proof -
  assume all: "list_all is_digit ds"
  have "\<not> (16 \<le> length ds \<and> ds ! 8 = 95)"
  proof
    assume h: "16 \<le> length ds \<and> ds ! 8 = 95"
    then have "8 < length ds" by simp
    with all have "is_digit (ds ! 8)" unfolding list_all_length by blast
    with h show False by (simp add: is_digit_def)
  qed
  then show ?thesis by (auto simp: re_timestamp_def)
qed

lemma replace_first_ext_word_digits:
  "list_all is_digit ds \<Longrightarrow> replace_first re_ext_word r ds = ds"
  by (induction ds) (auto simp: re_ext_word_def dest: digit_not_special)

lemma replace_all_underscore_digits:
  "list_all is_digit ds \<Longrightarrow> replace_all (\<lambda>c. c = 95) r ds = ds"
  by (induction ds) (auto simp: replace_all_def dest: digit_not_special)

lemma re_numeric_digits: "ds \<noteq> [] \<Longrightarrow> list_all is_digit ds \<Longrightarrow> re_numeric ds"
proof -
  assume ne: "ds \<noteq> []" and all: "list_all is_digit ds"
  from all have tw: "takeWhile is_digit ds = ds" and dw: "dropWhile is_digit ds = []"
    by (simp_all add: list_all_iff)
  show ?thesis unfolding re_numeric_def Let_def tw dw using ne by simp
qed

lemma formatCallTitle_digits:
  "ds \<noteq> [] \<Longrightarrow> list_all is_digit ds \<Longrightarrow>
   formatCallTitle ds = js ''Call Recording '' @ [8212] @ js '' '' @ take 8 ds @ js ''...''"
  by (simp add: formatCallTitle_def replace_anchored_def re_timestamp_digits
      replace_first_ext_word_digits replace_all_underscore_digits re_numeric_digits)

lemma re_timestamp_numeric_base:
  assumes "list_all is_digit ds"
  shows "re_timestamp (ds @ 46 # ext) = None"
proof -
  let ?s = "ds @ 46 # ext"
  have "\<not> (16 \<le> length ?s \<and> list_all is_digit (take 8 ?s) \<and> ?s ! 8 = 95)"
  proof
    assume h: "16 \<le> length ?s \<and> list_all is_digit (take 8 ?s) \<and> ?s ! 8 = 95"
    show False
    proof (cases "length ds \<le> 8")
      case False
      then have "?s ! 8 = ds ! 8" by (simp add: nth_append)
      moreover from False assms have "is_digit (ds ! 8)"
        unfolding list_all_length by simp
      ultimately show False using h by (simp add: is_digit_def)
    next
      case True
      show False
      proof (cases "length ds = 8")
        case True
        then have "?s ! 8 = 46" by (simp add: nth_append)
        with h show False by simp
      next
        case False
        with True have lt: "length ds < 8" by simp
        then have "(take 8 ?s) ! length ds = 46" by (simp add: nth_append)
        moreover from h lt have "is_digit ((take 8 ?s) ! length ds)"
          unfolding list_all_length by simp
        ultimately show False by (simp add: is_digit_def)
      qed
    qed
  qed
  then show ?thesis by (auto simp: re_timestamp_def)
qed

lemma replace_first_ext_word_numeric_base:
  "list_all is_digit ds \<Longrightarrow> ext \<noteq> [] \<Longrightarrow> list_all is_word ext \<Longrightarrow>
   replace_first re_ext_word [] (ds @ 46 # ext) = ds"
  by (induction ds) (auto simp: re_ext_word_def dest: digit_not_special)

lemma formatCallTitle_numeric_base:
  "ds \<noteq> [] \<Longrightarrow> list_all is_digit ds \<Longrightarrow> ext \<noteq> [] \<Longrightarrow> list_all is_word ext \<Longrightarrow>
   formatCallTitle (ds @ 46 # ext)
     = js ''Call Recording '' @ [8212] @ js '' '' @ take 8 ds @ js ''...''"
  by (simp add: formatCallTitle_def replace_anchored_def re_timestamp_numeric_base
      replace_first_ext_word_numeric_base replace_all_underscore_digits re_numeric_digits)

text \<open>
  C7. The claim is that the title function of the report detail page and the one of the
  home page and of ReportCard agree on every filename. They do not: on the filename
  \<open>12345678.wav\<close> the home page and ReportCard give the placeholder title and the detail
  page gives the bare number, and on \<open>call-01.wav\<close> only the detail page turns the hyphen
  into a space.
\<close>

theorem formatCallTitle_detail_differs:
  "formatCallTitle_detail (js ''12345678.wav'') = js ''12345678''
   \<and> formatCallTitle (js ''12345678.wav'') = js ''Call Recording '' @ [8212] @ js '' 12345678...''
   \<and> formatCallTitle_card (js ''12345678.wav'') = js ''Call Recording '' @ [8212] @ js '' 12345678...''
   \<and> formatCallTitle_detail (js ''call-01.wav'') = js ''call 01''
   \<and> formatCallTitle (js ''call-01.wav'') = js ''call-01''
   \<and> formatCallTitle_card (js ''call-01.wav'') = js ''call-01''"
  by code_simp

text \<open>
  C8. On \<open>20240101_120000_callrecording.wav\<close> the title function of the home page and of
  ReportCard returns \<open>callrecording\<close>; on \<open>482913\<close> it returns \<open>Call Recording\<close>, a
  dash, \<open>482913...\<close>; and on every filename whose base is a non-empty run of digits,
  alone or followed by a dot and an extension of word characters, it returns the
  placeholder, the first 8 characters of the base and three dots.
\<close>

theorem formatCallTitle_examples:
  "formatCallTitle (js ''20240101_120000_callrecording.wav'') = js ''callrecording''
   \<and> formatCallTitle_card (js ''20240101_120000_callrecording.wav'') = js ''callrecording''
   \<and> formatCallTitle (js ''482913'') = js ''Call Recording '' @ [8212] @ js '' 482913...''
   \<and> formatCallTitle_card (js ''482913'') = js ''Call Recording '' @ [8212] @ js '' 482913...''
   \<and> (\<forall>ds. ds \<noteq> [] \<longrightarrow> list_all is_digit ds \<longrightarrow>
          formatCallTitle ds = js ''Call Recording '' @ [8212] @ js '' '' @ take 8 ds @ js ''...''
          \<and> formatCallTitle_card ds = formatCallTitle ds)
   \<and> (\<forall>ds ext. ds \<noteq> [] \<longrightarrow> list_all is_digit ds \<longrightarrow> ext \<noteq> [] \<longrightarrow> list_all is_word ext \<longrightarrow>
          formatCallTitle (ds @ 46 # ext)
            = js ''Call Recording '' @ [8212] @ js '' '' @ take 8 ds @ js ''...''
          \<and> formatCallTitle_card (ds @ 46 # ext) = formatCallTitle (ds @ 46 # ext))"
proof -
  have a: "formatCallTitle (js ''20240101_120000_callrecording.wav'') = js ''callrecording''"
    by code_simp
  have b: "formatCallTitle (js ''482913'') = js ''Call Recording '' @ [8212] @ js '' 482913...''"
    by code_simp
  show ?thesis
    using a b
    by (simp add: formatCallTitle_card_eq formatCallTitle_digits formatCallTitle_numeric_base)
qed

theorem formatCallTitle_examples_witness:
  "js ''12345678901'' \<noteq> [] \<and> list_all is_digit (js ''12345678901'')
   \<and> js ''wav'' \<noteq> [] \<and> list_all is_word (js ''wav'')
   \<and> formatCallTitle (js ''12345678901'') = js ''Call Recording '' @ [8212] @ js '' 12345678...''
   \<and> formatCallTitle_card (js ''12345678901'') = js ''Call Recording '' @ [8212] @ js '' 12345678...''
   \<and> formatCallTitle (js ''12345678901.wav'') = js ''Call Recording '' @ [8212] @ js '' 12345678...''"
proof -
  have d: "js ''12345678901'' \<noteq> []" "list_all is_digit (js ''12345678901'')"
    by (simp_all add: js_def is_digit_def)
  have e: "js ''wav'' \<noteq> []" "list_all is_word (js ''wav'')"
    by (simp_all add: js_def is_word_def)
  have n: "js ''12345678901.wav'' = js ''12345678901'' @ 46 # js ''wav''"
    by (simp add: js_def)
  from formatCallTitle_examples
  have "\<forall>ds. ds \<noteq> [] \<longrightarrow> list_all is_digit ds \<longrightarrow>
          formatCallTitle ds = js ''Call Recording '' @ [8212] @ js '' '' @ take 8 ds @ js ''...''
          \<and> formatCallTitle_card ds = formatCallTitle ds"
    and "\<forall>ds ext. ds \<noteq> [] \<longrightarrow> list_all is_digit ds \<longrightarrow> ext \<noteq> [] \<longrightarrow> list_all is_word ext \<longrightarrow>
          formatCallTitle (ds @ 46 # ext)
            = js ''Call Recording '' @ [8212] @ js '' '' @ take 8 ds @ js ''...''
          \<and> formatCallTitle_card (ds @ 46 # ext) = formatCallTitle (ds @ 46 # ext)"
    by blast+
  with d e have "formatCallTitle (js ''12345678901'')
                 = js ''Call Recording '' @ [8212] @ js '' '' @ take 8 (js ''12345678901'') @ js ''...''
               \<and> formatCallTitle_card (js ''12345678901'') = formatCallTitle (js ''12345678901'')"
    and "formatCallTitle (js ''12345678901'' @ 46 # js ''wav'')
           = js ''Call Recording '' @ [8212] @ js '' '' @ take 8 (js ''12345678901'') @ js ''...''"
    by blast+
  with d e show ?thesis unfolding n by (simp add: js_def)
qed

section \<open>Risk buckets and the average-risk card\<close>

lemma home_card_level_thresholds:
  "\<not> truthy_str (risk_level r) \<Longrightarrow>
   card_level (home_card idx r) = spec_bucket (or_num (risk_score r) 0)"
  by (auto simp: home_card_def spec_bucket_def Let_def or_str_def truthy_str_def
      split: option.splits)

lemma reportCard_level_thresholds:
  "\<not> truthy_str (risk_level r) \<Longrightarrow>
   card_level (reportCard r) = spec_bucket (or_num (risk_score r) 0)"
  by (auto simp: reportCard_def spec_bucket_def Let_def or_str_def truthy_str_def
      split: option.splits)



text \<open>
  C1. The claim is that every place that derives a bucket from a score \<open>s\<close> gives low for
  \<open>s < 35\<close>, medium for \<open>35 \<le> s < 65\<close> and high for \<open>s \<ge> 65\<close>. The cards of the home
  page and ReportCard do (the two lemmas above, for a report without \<open>risk_level\<close>), but
  the label of the average-risk card compares with \<open>\<le>\<close>: the value 35 (an average risk
  score of 65) is labelled low and the value 65 medium, where a card puts 35 in medium
  and 65 in high.
\<close>

theorem riskLabel_boundaries:
  "riskLabel 35 = js ''Low risk'' \<and> riskLabel 65 = js ''Medium risk''
   \<and> avgRiskScore (Some \<lparr>report_count = 2, total_violations = None,
                          avg_compliance_score = 35, avg_risk_score = 65\<rparr>) = 35
   \<and> card_level (home_card 0 \<lparr>report_id = None, filename = None, timestamp = None,
                               risk_score = Some 35, risk_level = None, violations = None\<rparr>)
       = js ''medium''
   \<and> card_level (reportCard \<lparr>report_id = None, filename = None, timestamp = None,
                               risk_score = Some 35, risk_level = None, violations = None\<rparr>)
       = js ''medium''
   \<and> card_level (home_card 0 \<lparr>report_id = None, filename = None, timestamp = None,
                               risk_score = Some 65, risk_level = None, violations = None\<rparr>)
       = js ''high''
   \<and> card_level (reportCard \<lparr>report_id = None, filename = None, timestamp = None,
                               risk_score = Some 65, risk_level = None, violations = None\<rparr>)
       = js ''high''"
  by (simp add: riskLabel_def avgRiskScore_def math_round_def double_sub_def round_double_def
      binade_def binade_up.simps round_even_def home_card_def reportCard_def
      or_num_def or_str_def Let_def)

subsection \<open>Rounding to a double is monotone\<close>















section \<open>Loading on mount\<close>

text \<open>
  C2, as claimed: when a fetch of the mount effect fails, the page sets an error flag.
  The home page does not: after a failed load its state is the initial one with
  \<open>loading\<close> false, and it has no error flag to set.
\<close>

theorem home_load_failure_sets_no_error_flag:
  "home_loadData (Inl (js ''Failed to fetch'')) (Inr None) home_init
     = \<lparr>home_reports = [], home_summary = None, home_loading = False, home_isAnalyzing = False\<rparr>
   \<and> error_flag (HomePage (home_loadData (Inl (js ''Failed to fetch'')) (Inr None) home_init))
       = None"
  by (simp add: home_loadData_def promise_all2_def home_init_def)

text \<open>
  C2, amended. On the home page and on the analytics page the two results are stored
  together, and only when both fetches fulfilled. When either fetch rejects, no result is
  stored and \<open>loading\<close> becomes false; the analytics page also sets its error message,
  the home page changes nothing else.
\<close>

theorem mount_fetches_all_or_nothing:
  "(isl a \<or> isl b \<longrightarrow> home_loadData a b s = s\<lparr>home_loading := False\<rparr>)
   \<and> home_loadData (Inr x) (Inr y) s
       = s\<lparr>home_reports := x, home_summary := y, home_loading := False\<rparr>
   \<and> (isl c \<or> isl d \<longrightarrow>
        analytics_loadData c d t
          = t\<lparr>an_error := Some (js ''Failed to load analytics data''), an_loading := False\<rparr>)
   \<and> analytics_loadData (Inr u) (Inr v) t
       = t\<lparr>an_summary := u, an_trends := v, an_loading := False\<rparr>"
  by (cases a; cases b; cases c; cases d)
     (simp_all add: home_loadData_def analytics_loadData_def promise_all2_def)

theorem mount_fetches_all_or_nothing_witness:
  "isl (Inl (js ''timeout'') :: AnalyticsSummary option settled)
   \<and> home_loadData
        (Inr [\<lparr>report_id = Some (js ''r1''), filename = None, timestamp = None,
               risk_score = Some 70, risk_level = None, violations = None\<rparr>])
        (Inl (js ''timeout'')) home_init
       = \<lparr>home_reports = [], home_summary = None, home_loading = False,
          home_isAnalyzing = False\<rparr>
   \<and> isl (Inl (js ''timeout'') :: AnalyticsTrends option settled)
   \<and> analytics_loadData
        (Inr (Some \<lparr>report_count = 1, total_violations = None, avg_compliance_score = 30,
                    avg_risk_score = 70\<rparr>))
        (Inl (js ''timeout'')) analytics_init
       = \<lparr>an_summary = None, an_trends = None, an_loading = False,
          an_error = Some (js ''Failed to load analytics data''), an_exporting = False,
          an_exportMsg = None\<rparr>"
  using mount_fetches_all_or_nothing
          [where a = "Inr [\<lparr>report_id = Some (js ''r1''), filename = None, timestamp = None,
                             risk_score = Some 70, risk_level = None, violations = None\<rparr>]"
             and b = "Inl (js ''timeout'')" and s = home_init
             and c = "Inr (Some \<lparr>report_count = 1, total_violations = None,
                                  avg_compliance_score = 30, avg_risk_score = 70\<rparr>)"
             and d = "Inl (js ''timeout'')" and t = analytics_init]
  by (simp add: home_init_def analytics_init_def)

section \<open>The error state of a page\<close>

lemma home_never_shows_error: "shows_error (home_render s) = False"
  by (simp add: shows_error_def home_render_def Let_def)

text \<open>
  C6, as claimed: every page, the home page among them, renders an error state when its
  fetch rejects. After a rejected fetch the home page renders its four cards and the
  "no reports yet" block, and no error state.
\<close>

theorem home_failure_renders_empty_state:
  "home_render (home_loadData (Inl (js ''Failed to fetch'')) (Inr None) home_init)
     = [StatCard (js ''TOTAL REPORTS'') (js ''0'') (js ''No reports yet''),
        StatCard (js ''VIOLATIONS FOUND'') (js ''0'') (js ''Across all reports''),
        StatCard (js ''COMPLIANCE RATE'') (js ''0%'') (js ''No data yet''),
        StatCard (js ''AVG. RISK SCORE'') (js ''0%'') (js ''Low risk''),
        EmptyState (js ''No reports yet. Upload an audio file above to get started.'')]
   \<and> shows_error (home_render (home_loadData (Inl (js ''Failed to fetch'')) (Inr None) home_init))
       = False"
  by code_simp

text \<open>
  C6, amended. After the first load has settled, the report detail page renders the
  error state exactly when the fetch rejected or resolved with no report; the analytics
  page exactly when one of its two fetches rejected or the summary is null; the reports
  list page, whose payload is an array, exactly when the fetch rejected; the home page
  never.
\<close>

theorem error_state_per_page:
  "shows_error (detail_render (loadReport r detail_init)) = (isl r \<or> r = Inr None)
   \<and> shows_error (analytics_render (analytics_loadData a b analytics_init))
       = (isl a \<or> isl b \<or> a = Inr None)
   \<and> shows_error (reports_render by_time (loadReports l reports_init)) = isl l
   \<and> shows_error (home_render (home_loadData x y home_init)) = False"
proof (intro conjI)
  show "shows_error (detail_render (loadReport r detail_init)) = (isl r \<or> r = Inr None)"
    by (cases r)
       (auto simp: shows_error_def detail_render_def loadReport_def detail_init_def
          truthy_str_def js_def split: option.splits)
  show "shows_error (analytics_render (analytics_loadData a b analytics_init))
       = (isl a \<or> isl b \<or> a = Inr None)"
    by (cases a; cases b)
       (auto simp: shows_error_def analytics_render_def analytics_loadData_def promise_all2_def
          analytics_init_def truthy_str_def js_def split: option.splits)
  show "shows_error (reports_render by_time (loadReports l reports_init)) = isl l"
    by (cases l)
       (auto simp: shows_error_def reports_render_def loadReports_def reports_init_def
          Let_def js_def)
  show "shows_error (home_render (home_loadData x y home_init)) = False"
    by (rule home_never_shows_error)
qed

theorem error_state_per_page_witness:
  "shows_error (detail_render (loadReport (Inr None) detail_init))
   \<and> shows_error (detail_render (loadReport (Inl (js ''404'')) detail_init))
   \<and> \<not> shows_error (detail_render (loadReport
          (Inr (Some \<lparr>report_id = Some (js ''r1''), filename = None, timestamp = None,
                       risk_score = Some 70, risk_level = None, violations = None\<rparr>))
          detail_init))
   \<and> shows_error (analytics_render (analytics_loadData (Inr None) (Inr None) analytics_init))
   \<and> shows_error (reports_render rev (loadReports (Inl (js ''timeout'')) reports_init))
   \<and> shows_error (home_render (home_loadData (Inl (js ''timeout'')) (Inl (js ''timeout'')) home_init))
       = False"
  using error_state_per_page [where r = "Inr None" and a = "Inr None" and b = "Inr None"
          and by_time = rev and l = "Inl (js ''timeout'')" and x = "Inl (js ''timeout'')"
          and y = "Inl (js ''timeout'')"]
        error_state_per_page [where r = "Inl (js ''404'')"]
        error_state_per_page
          [where r = "Inr (Some \<lparr>report_id = Some (js ''r1''), filename = None,
                                  timestamp = None, risk_score = Some 70, risk_level = None,
                                  violations = None\<rparr>)"]
  by simp

section \<open>The chat session\<close>

lemma trim_blank: "list_all is_js_space xs \<Longrightarrow> trim xs = []"
proof -
  assume "list_all is_js_space xs"
  then have d: "dropWhile is_js_space xs = []" by (simp add: list_all_iff)
  show ?thesis unfolding trim_def d by simp
qed

text \<open>
  C4. When the text to send (the argument if it is given and not empty, the input
  otherwise) is empty or all white space, or when a request is outstanding,
  \<open>handleSend\<close> sends nothing and leaves the whole chat state as it was.
\<close>

theorem handleSend_guard:
  "list_all is_js_space (or_str question (q_input s)) \<or> q_loading s \<Longrightarrow>
   handleSend_begin now question s = (s, None) \<and> handleSend tsend treply outcome question s = s"
  by (auto simp: handleSend_def handleSend_begin_def Let_def trim_blank)

theorem handleSend_guard_witness:
  "list_all is_js_space (or_str None (js ''   ''))
   \<and> handleSend 10 20 (Inr None) None
        \<lparr>q_messages = [], q_input = js ''   '', q_loading = False, q_suggestions = [],
         q_sessionId = js ''query_1_abc''\<rparr>
       = \<lparr>q_messages = [], q_input = js ''   '', q_loading = False, q_suggestions = [],
          q_sessionId = js ''query_1_abc''\<rparr>
   \<and> handleSend 10 20 (Inr None) (Some (js ''How many calls?''))
        \<lparr>q_messages = [], q_input = [], q_loading = True, q_suggestions = [],
         q_sessionId = js ''query_1_abc''\<rparr>
       = \<lparr>q_messages = [], q_input = [], q_loading = True, q_suggestions = [],
          q_sessionId = js ''query_1_abc''\<rparr>"
proof -
  have b: "list_all is_js_space (or_str None (js ''   ''))"
    by (simp add: or_str_def js_def is_js_space_def)
  show ?thesis
    using b
      handleSend_guard [where question = None and tsend = 10 and treply = 20 and outcome = "Inr None"
        and s = "\<lparr>q_messages = [], q_input = js ''   '', q_loading = False,
                   q_suggestions = [], q_sessionId = js ''query_1_abc''\<rparr>"]
      handleSend_guard [where question = "Some (js ''How many calls?'')" and tsend = 10 and treply = 20
        and outcome = "Inr None"
        and s = "\<lparr>q_messages = [], q_input = [], q_loading = True,
                   q_suggestions = [], q_sessionId = js ''query_1_abc''\<rparr>"]
    by simp
qed

text \<open>
  C3, as claimed: on success the assistant turn is the answer of the response. A
  response whose answer is the empty string is a success, and the assistant turn is the
  fixed sentence "I wasn't able to process that question. Please try again.".
\<close>

theorem empty_answer_replaced:
  "map msg_content (q_messages (handleSend 10 20
      (Inr (Some \<lparr>answer = Some [], response_data_context = None\<rparr>)) None
      \<lparr>q_messages = [], q_input = js ''hi'', q_loading = False, q_suggestions = [],
       q_sessionId = js ''query_1_abc''\<rparr>))
   = [js ''hi'', js ''I wasn't able to process that question. Please try again.'']"
  by (simp add: handleSend_def handleSend_begin_def handleSend_resume_def Let_def or_str_def
      trim_def is_js_space_def fallback_answer_def js_def)

text \<open>
  C3, amended. An accepted submission (trimmed text not empty, no request outstanding)
  appends exactly a user turn with the trimmed text and then exactly one assistant turn:
  the answer of the response when there is one and it is not empty, the fixed fallback
  sentence when the response or its answer is missing or empty, and the canned apology
  when the request failed. Loading is false afterwards in every case, and the input is
  cleared.
\<close>

theorem handleSend_turns:
  "trim (or_str question (q_input s)) \<noteq> [] \<Longrightarrow> \<not> q_loading s \<Longrightarrow>
   q_messages (handleSend tsend treply outcome question s)
     = q_messages s @ drop (length (q_messages s)) (q_messages (handleSend tsend treply outcome question s))
   \<and> map msg_role (drop (length (q_messages s)) (q_messages (handleSend tsend treply outcome question s)))
       = [User, Bot]
   \<and> map msg_content (drop (length (q_messages s)) (q_messages (handleSend tsend treply outcome question s)))
       = [trim (or_str question (q_input s)),
          (case outcome of
             Inl e \<Rightarrow> apology
           | Inr response \<Rightarrow>
               or_str (case response of None \<Rightarrow> None | Some r \<Rightarrow> answer r) fallback_answer)]
   \<and> \<not> q_loading (handleSend tsend treply outcome question s)
   \<and> q_input (handleSend tsend treply outcome question s) = []"
  by (cases outcome)
     (simp_all add: handleSend_def handleSend_begin_def handleSend_resume_def Let_def)

theorem handleSend_turns_witness:
  "trim (or_str None (js '' hello '')) \<noteq> []
   \<and> map msg_role (q_messages (handleSend 10 20
        (Inr (Some \<lparr>answer = Some (js ''42 calls''), response_data_context = None\<rparr>)) None
        \<lparr>q_messages = [], q_input = js '' hello '', q_loading = False, q_suggestions = [],
         q_sessionId = js ''query_1_abc''\<rparr>)) = [User, Bot]
   \<and> map msg_content (q_messages (handleSend 10 20
        (Inr (Some \<lparr>answer = Some (js ''42 calls''), response_data_context = None\<rparr>)) None
        \<lparr>q_messages = [], q_input = js '' hello '', q_loading = False, q_suggestions = [],
         q_sessionId = js ''query_1_abc''\<rparr>)) = [js ''hello'', js ''42 calls'']
   \<and> map msg_content (q_messages (handleSend 10 20 (Inl (js ''NetworkError'')) None
        \<lparr>q_messages = [], q_input = js '' hello '', q_loading = False, q_suggestions = [],
         q_sessionId = js ''query_1_abc''\<rparr>)) = [js ''hello'', apology]"
proof -
  let ?s = "\<lparr>q_messages = [], q_input = js '' hello '', q_loading = False, q_suggestions = [],
             q_sessionId = js ''query_1_abc''\<rparr>"
  have q: "trim (or_str None (q_input ?s)) = js ''hello''"
    by (simp add: or_str_def trim_def is_js_space_def js_def)
  have acc: "trim (or_str None (q_input ?s)) \<noteq> []" "\<not> q_loading ?s"
    unfolding q by (simp_all add: js_def)
  have a: "or_str (Some (js ''42 calls'')) fallback_answer = js ''42 calls''"
    by (simp add: or_str_def js_def)
  show ?thesis
    using acc q a
      handleSend_turns [where question = None and s = ?s and tsend = 10 and treply = 20
        and outcome = "Inr (Some \<lparr>answer = Some (js ''42 calls''), response_data_context = None\<rparr>)",
        OF acc]
      handleSend_turns [where question = None and s = ?s and tsend = 10 and treply = 20
        and outcome = "Inl (js ''NetworkError'')", OF acc]
    by simp
qed

section \<open>Caller history\<close>

text \<open>
  C10. With a report loaded, a rejected caller-history fetch only opens the panel and
  stops its loading flag: the stored history and the error flag of the page are as
  before and the page shows no error state it did not show before. When the stored
  history is empty (as on a first attempt), the resulting state is the one a fulfilled
  fetch of an empty history gives, and the panel shows "No previous calls found".
\<close>

theorem caller_history_failure_silent:
  "rd_report s = Some r \<Longrightarrow>
   handleShowCallerHistory (Inl e) s = s\<lparr>rd_showCallerHistory := True, rd_loadingHistory := False\<rparr>
   \<and> rd_callerHistory (handleShowCallerHistory (Inl e) s) = rd_callerHistory s
   \<and> error_flag (ReportDetailPage (handleShowCallerHistory (Inl e) s))
       = error_flag (ReportDetailPage s)
   \<and> shows_error (detail_render (handleShowCallerHistory (Inl e) s)) = shows_error (detail_render s)
   \<and> (rd_callerHistory s = [] \<longrightarrow>
         handleShowCallerHistory (Inl e) s = handleShowCallerHistory (Inr []) s
         \<and> history_panel (handleShowCallerHistory (Inl e) s)
             = [HistoryEmpty (js ''No previous calls found'')])"
proof -
  assume rep: "rd_report s = Some r"
  have st: "handleShowCallerHistory (Inl e) s
              = s\<lparr>rd_showCallerHistory := True, rd_loadingHistory := False\<rparr>"
    using rep by (simp add: handleShowCallerHistory_def handleShowCallerHistory_begin_def
        handleShowCallerHistory_resume_def)
  have ok: "handleShowCallerHistory (Inr []) s
              = s\<lparr>rd_showCallerHistory := True, rd_callerHistory := [], rd_loadingHistory := False\<rparr>"
    using rep by (simp add: handleShowCallerHistory_def handleShowCallerHistory_begin_def
        handleShowCallerHistory_resume_def)
  have same: "rd_callerHistory s = [] \<Longrightarrow>
              handleShowCallerHistory (Inl e) s = handleShowCallerHistory (Inr []) s"
    unfolding st ok by (cases s) simp
  have panel: "rd_callerHistory s = [] \<Longrightarrow>
               history_panel (handleShowCallerHistory (Inl e) s)
                 = [HistoryEmpty (js ''No previous calls found'')]"
    unfolding st by (simp add: history_panel_def)
  have err: "shows_error (detail_render (handleShowCallerHistory (Inl e) s))
               = shows_error (detail_render s)"
    unfolding st by (simp add: detail_render_def shows_error_def split: option.splits)
  show ?thesis using st same panel err by simp
qed

theorem caller_history_failure_silent_witness:
  "rd_report \<lparr>rd_report = Some \<lparr>report_id = Some (js ''r1''), filename = None,
                 timestamp = None, risk_score = Some 70, risk_level = None, violations = None\<rparr>,
               rd_loading = False, rd_error = None, rd_showCallerHistory = False,
               rd_callerHistory = [], rd_loadingHistory = False\<rparr>
     = Some \<lparr>report_id = Some (js ''r1''), filename = None,
                 timestamp = None, risk_score = Some 70, risk_level = None, violations = None\<rparr>
   \<and> handleShowCallerHistory (Inl (js ''timeout''))
        \<lparr>rd_report = Some \<lparr>report_id = Some (js ''r1''), filename = None,
                 timestamp = None, risk_score = Some 70, risk_level = None, violations = None\<rparr>,
         rd_loading = False, rd_error = None, rd_showCallerHistory = False,
         rd_callerHistory = [], rd_loadingHistory = False\<rparr>
       = handleShowCallerHistory (Inr [])
        \<lparr>rd_report = Some \<lparr>report_id = Some (js ''r1''), filename = None,
                 timestamp = None, risk_score = Some 70, risk_level = None, violations = None\<rparr>,
         rd_loading = False, rd_error = None, rd_showCallerHistory = False,
         rd_callerHistory = [], rd_loadingHistory = False\<rparr>
   \<and> history_panel (handleShowCallerHistory (Inl (js ''timeout''))
        \<lparr>rd_report = Some \<lparr>report_id = Some (js ''r1''), filename = None,
                 timestamp = None, risk_score = Some 70, risk_level = None, violations = None\<rparr>,
         rd_loading = False, rd_error = None, rd_showCallerHistory = False,
         rd_callerHistory = [], rd_loadingHistory = False\<rparr>)
       = [HistoryEmpty (js ''No previous calls found'')]"
proof -
  let ?r = "\<lparr>report_id = Some (js ''r1''), filename = None, timestamp = None,
             risk_score = Some (70::real), risk_level = None, violations = None\<rparr>"
  let ?s = "\<lparr>rd_report = Some ?r, rd_loading = False, rd_error = None,
             rd_showCallerHistory = False, rd_callerHistory = [], rd_loadingHistory = False\<rparr>"
  have h: "rd_report ?s = Some ?r" by simp
  have e: "rd_callerHistory ?s = []" by simp
  from caller_history_failure_silent [OF h, where e = "js ''timeout''"] e
  have "handleShowCallerHistory (Inl (js ''timeout'')) ?s = handleShowCallerHistory (Inr []) ?s"
    and "history_panel (handleShowCallerHistory (Inl (js ''timeout'')) ?s)
           = [HistoryEmpty (js ''No previous calls found'')]"
    by blast+
  with h show ?thesis by blast
qed

section \<open>The export message and its timers\<close>

lemma message_lasts_until_first_timer:
  "an_exportMsg (env_page (fire_timers t (handleExportCSV_resume now (Inr result) env)))
     = (if list_ex (\<lambda>due. due \<le> t) (env_timers env @ [now + 4000]) then None
        else Some (if csv_success result then js ''CSV downloaded successfully!''
                   else or_str (csv_error result) (js ''Export failed'')))"
  by (simp add: fire_timers_def handleExportCSV_resume_def)

lemma message_cleared_after_4000:
  "env_timers env = [] \<Longrightarrow>
   an_exportMsg (env_page (fire_timers t (handleExportCSV_resume now (Inr result) env)))
     = (if now + 4000 \<le> t then None
        else Some (if csv_success result then js ''CSV downloaded successfully!''
                   else or_str (csv_error result) (js ''Export failed'')))"
  by (simp add: fire_timers_def handleExportCSV_resume_def)

text \<open>
  C5. The claim is that a message set by an export is cleared 4000 ms after it was set
  unless a new export replaces it sooner, and never by the timer of an earlier export.
  A first export settles at 100 ms and starts a timer due at 4100 ms; a second one is
  started at 3000 ms and sets its message at 3100 ms. That message is on screen at
  4099 ms and gone at 4100 ms, 1000 ms after it was set, cleared by the first timer; the
  timer of the second export is still pending, due at 7100 ms.
\<close>

theorem stale_timer_clears_newer_message:
  "exportMsg_at 2999
     [(0, ClickExport), (100, ExportSettled (Inr \<lparr>csv_success = False, csv_error = None\<rparr>))]
     \<lparr>env_page = analytics_init\<lparr>an_loading := False\<rparr>, env_timers = []\<rparr>
     = Some (js ''Export failed'')
   \<and> exportMsg_at 4099
     [(0, ClickExport), (100, ExportSettled (Inr \<lparr>csv_success = False, csv_error = None\<rparr>)),
      (3000, ClickExport), (3100, ExportSettled (Inr \<lparr>csv_success = True, csv_error = None\<rparr>))]
     \<lparr>env_page = analytics_init\<lparr>an_loading := False\<rparr>, env_timers = []\<rparr>
     = Some (js ''CSV downloaded successfully!'')
   \<and> exportMsg_at 4100
     [(0, ClickExport), (100, ExportSettled (Inr \<lparr>csv_success = False, csv_error = None\<rparr>)),
      (3000, ClickExport), (3100, ExportSettled (Inr \<lparr>csv_success = True, csv_error = None\<rparr>))]
     \<lparr>env_page = analytics_init\<lparr>an_loading := False\<rparr>, env_timers = []\<rparr>
     = None
   \<and> env_timers (fire_timers 4100 (foldl export_step
       \<lparr>env_page = analytics_init\<lparr>an_loading := False\<rparr>, env_timers = []\<rparr>
     [(0, ClickExport), (100, ExportSettled (Inr \<lparr>csv_success = False, csv_error = None\<rparr>)),
      (3000, ClickExport), (3100, ExportSettled (Inr \<lparr>csv_success = True, csv_error = None\<rparr>))]))
     = [7100]"
  by (simp add: exportMsg_at_def fire_timers_def handleExportCSV_resume_def click_export_def
      handleExportCSV_begin_def analytics_init_def or_str_def)

end
